theory Spec2Isabelle
  imports Complex_Main
begin

section \<open>JavaScript values used by the extension\<close>

text \<open>
  A JavaScript number is a finite double, one of the two infinities, or NaN.  A finite
  double is modelled by the real it denotes (the sign of zero is not kept).  Comparisons,
  minima and maxima of doubles are exact; addition is not, see \<open>double_add\<close> below.
\<close>

datatype jsnum = Fin real | PosInf | NegInf | NaN

text \<open>
  Values that can sit in a message property such as \<open>delta\<close> or \<open>time\<close>.
\<close>

datatype jsval = Undefined | Null | Boolean bool | Number jsnum | String string

text \<open>\<open>Number.isFinite(v)\<close>: true only for a value of type number that is finite.\<close>

fun Number_isFinite :: "jsval \<Rightarrow> bool" where
  "Number_isFinite (Number (Fin r)) = True"
| "Number_isFinite v = False"

text \<open>
  Addition of two finite doubles (IEEE 754 binary64, round to nearest, ties to even): the
  exact sum \<open>x\<close> is rounded to the nearest multiple of the spacing of the doubles around
  it, which is 2 to the power \<open>e - 52\<close> where \<open>e\<close> is the binary exponent of \<open>x\<close>, and
  \<open>e\<close> is no less than \<open>-1022\<close> (below that the doubles are subnormal and evenly
  spaced); a result of magnitude 2 to the power 1024 or more is an infinity.
\<close>

definition round_half_even :: "real \<Rightarrow> int" where
  "round_half_even q =
     (let f = \<lfloor>q\<rfloor>; frac = q - of_int f
      in if frac < 1 / 2 then f
         else if 1 / 2 < frac then f + 1
         else if even f then f else f + 1)"

definition double_round :: "real \<Rightarrow> jsnum" where
  "double_round x =
     (if x = 0 then Fin 0
      else (let e = max \<lfloor>log 2 \<bar>x\<bar>\<rfloor> (- 1022);
                quantum = 2 powi (e - 52);
                y = of_int (round_half_even (x / quantum)) * quantum
            in if 2 ^ 1024 \<le> y then PosInf
               else if y \<le> - (2 ^ 1024) then NegInf
               else Fin y))"

definition double_add :: "real \<Rightarrow> real \<Rightarrow> jsnum" where
  "double_add a b = double_round (a + b)"

text \<open>\<open>a < b\<close> on numbers: false as soon as one side is NaN.\<close>

fun js_less :: "jsnum \<Rightarrow> jsnum \<Rightarrow> bool" where
  "js_less NaN b = False"
| "js_less a NaN = False"
| "js_less (Fin a) (Fin b) = (a < b)"
| "js_less (Fin a) PosInf = True"
| "js_less (Fin a) NegInf = False"
| "js_less PosInf b = False"
| "js_less NegInf NegInf = False"
| "js_less NegInf b = True"

text \<open>\<open>Math.max\<close> and \<open>Math.min\<close> of two numbers: NaN is contagious.\<close>

fun Math_max :: "jsnum \<Rightarrow> jsnum \<Rightarrow> jsnum" where
  "Math_max NaN b = NaN"
| "Math_max a NaN = NaN"
| "Math_max a b = (if js_less a b then b else a)"

fun Math_min :: "jsnum \<Rightarrow> jsnum \<Rightarrow> jsnum" where
  "Math_min NaN b = NaN"
| "Math_min a NaN = NaN"
| "Math_min a b = (if js_less b a then b else a)"

text \<open>
  Truthiness of a value that is either absent or a string: \<open>undefined\<close>, \<open>null\<close>
  and the empty string are falsy.
\<close>

fun truthy :: "string option \<Rightarrow> bool" where
  "truthy None = False"
| "truthy (Some s) = (s \<noteq> [])"

section \<open>Background service worker (background.js)\<close>

subsection \<open>Sessions and the session map\<close>

text \<open>
  The payload a content script sends with \<open>MEDIA_UPDATE\<close>, restricted to the fields
  that describe playback.  The presentation fields (title, artist, artwork, origin,
  site name, favicon, source URL, media kind, picture-in-picture and readiness flags)
  are read from the document and are copied through unchanged by every function
  modelled here.
\<close>

record payload =
  elementId :: string
  isPlaying :: bool
  isEnded :: bool
  p_muted :: bool
  p_volume :: real
  p_duration :: "real option"
  p_currentTime :: real
  p_playbackRate :: real

text \<open>
  A stored session is the payload spread into a new object together with \<open>tabId\<close>,
  \<open>sessionId\<close> and \<open>lastUpdated\<close> (\<open>Date.now()\<close>, integer milliseconds).
\<close>

record session = payload +
  tabId :: int
  sessionId :: string
  lastUpdated :: int

text \<open>
  \<open>mediaSessions\<close> is a JavaScript \<open>Map\<close>: keys are unique and iteration follows
  insertion order, so it is an association list.
\<close>

type_synonym session_map = "(string \<times> session) list"

definition Map_has :: "('k \<times> 'v) list \<Rightarrow> 'k \<Rightarrow> bool" where
  "Map_has m k = (k \<in> set (map fst m))"

definition Map_get :: "('k \<times> 'v) list \<Rightarrow> 'k \<Rightarrow> 'v option" where
  "Map_get m k = map_of m k"

definition Map_delete :: "('k \<times> 'v) list \<Rightarrow> 'k \<Rightarrow> ('k \<times> 'v) list" where
  "Map_delete m k = filter (\<lambda>kv. fst kv \<noteq> k) m"

fun Map_set :: "('k \<times> 'v) list \<Rightarrow> 'k \<Rightarrow> 'v \<Rightarrow> ('k \<times> 'v) list" where
  "Map_set [] k v = [(k, v)]"
| "Map_set ((k', v') # m) k v = (if k' = k then (k, v) # m else (k', v') # Map_set m k v)"

definition Map_values :: "('k \<times> 'v) list \<Rightarrow> 'v list" where
  "Map_values m = map snd m"

text \<open>
  Messages a popup sends over its port, and the addressed command the worker forwards
  to a tab.  \<open>sessionId\<close> is \<open>None\<close> when the property is missing or is not a string.
\<close>

record port_message =
  pm_type :: string
  pm_sessionId :: "string option"
  pm_command :: string
  pm_delta :: jsval
  pm_time :: jsval

record tab_message =
  tm_type :: string
  tm_elementId :: string
  tm_command :: string
  tm_delta :: jsval
  tm_time :: jsval

text \<open>
  What the worker does to the outside: \<open>port.postMessage\<close> on a popup port,
  \<open>chrome.tabs.sendMessage\<close> to a tab, and \<open>console.warn\<close>.  A \<open>postMessage\<close> that
  throws is caught and only logged, so the trace records the call.
\<close>

datatype bg_effect =
  PostMessage nat string "session list"
| TabsSendMessage int tab_message
| ConsoleWarn

record background =
  mediaSessions :: session_map
  popupPorts :: "nat list"

subsection \<open>serializeSessions\<close>

text \<open>The comparator handed to \<open>Array.prototype.sort\<close>.\<close>

definition compareSessions :: "session \<Rightarrow> session \<Rightarrow> int" where
  "compareSessions a b =
     (if isPlaying a \<noteq> isPlaying b then (if isPlaying a then - 1 else 1)
      else lastUpdated b - lastUpdated a)"

text \<open>
  \<open>Array.prototype.sort(compare)\<close> is stable and, for a consistent comparator, returns
  the elements arranged so that \<open>compare\<close> never puts a later element strictly before an
  earlier one.  It is modelled by the stable insertion sort driven by the comparator.
\<close>

fun sort_insert :: "('a \<Rightarrow> 'a \<Rightarrow> int) \<Rightarrow> 'a \<Rightarrow> 'a list \<Rightarrow> 'a list" where
  "sort_insert cmp x [] = [x]"
| "sort_insert cmp x (y # ys) =
     (if cmp x y \<le> 0 then x # y # ys else y # sort_insert cmp x ys)"

fun Array_sort :: "('a \<Rightarrow> 'a \<Rightarrow> int) \<Rightarrow> 'a list \<Rightarrow> 'a list" where
  "Array_sort cmp [] = []"
| "Array_sort cmp (x # xs) = sort_insert cmp x (Array_sort cmp xs)"

definition serializeSessions :: "background \<Rightarrow> session list" where
  "serializeSessions bg = Array_sort compareSessions (Map_values (mediaSessions bg))"

subsection \<open>broadcastSessions\<close>

definition broadcastSessions :: "background \<Rightarrow> bg_effect list" where
  "broadcastSessions bg =
     map (\<lambda>port. PostMessage port ''SESSIONS_UPDATED'' (serializeSessions bg)) (popupPorts bg)"

subsection \<open>chrome.tabs.onRemoved\<close>

text \<open>
  The loop walks the entries of the live map and deletes the entry it is standing on.
  A \<open>Map\<close> iterator survives such a deletion and moves on to the next entry, so the
  walk visits exactly the entries present at the start, in order.
\<close>

fun onRemoved_loop :: "int \<Rightarrow> (string \<times> session) list \<Rightarrow> session_map \<times> bool \<Rightarrow> session_map \<times> bool" where
  "onRemoved_loop t [] acc = acc"
| "onRemoved_loop t ((sid, sess) # rest) (m, hasChanges) =
     (if tabId sess = t then onRemoved_loop t rest (Map_delete m sid, True)
      else onRemoved_loop t rest (m, hasChanges))"

definition onRemoved :: "background \<Rightarrow> int \<Rightarrow> background \<times> bg_effect list" where
  "onRemoved bg t =
     (let (m, hasChanges) = onRemoved_loop t (mediaSessions bg) (mediaSessions bg, False);
          bg' = bg\<lparr>mediaSessions := m\<rparr>
      in if hasChanges then (bg', broadcastSessions bg') else (bg', []))"

subsection \<open>dispatchMediaCommand\<close>

text \<open>
  \<open>delivered\<close> says whether \<open>chrome.tabs.sendMessage\<close> resolved; a rejection is caught
  and logged.
\<close>

definition dispatchMediaCommand :: "background \<Rightarrow> port_message \<Rightarrow> bool \<Rightarrow> background \<times> bg_effect list" where
  "dispatchMediaCommand bg message delivered =
     (case pm_sessionId message of
        None \<Rightarrow> (bg, [])
      | Some sid \<Rightarrow>
          if sid = [] \<or> \<not> Map_has (mediaSessions bg) sid then (bg, [])
          else (case Map_get (mediaSessions bg) sid of
                  None \<Rightarrow> (bg, [])
                | Some sess \<Rightarrow>
                    (bg, TabsSendMessage (tabId sess)
                           \<lparr>tm_type = ''MEDIA_COMMAND'', tm_elementId = elementId sess,
                            tm_command = pm_command message, tm_delta = pm_delta message,
                            tm_time = pm_time message\<rparr>
                         # (if delivered then [] else [ConsoleWarn]))))"

text \<open>The port's \<open>onMessage\<close> listener: only \<open>MEDIA_COMMAND\<close> messages are dispatched.\<close>

definition port_onMessage :: "background \<Rightarrow> port_message \<Rightarrow> bool \<Rightarrow> background \<times> bg_effect list" where
  "port_onMessage bg message delivered =
     (if pm_type message = ''MEDIA_COMMAND'' then dispatchMediaCommand bg message delivered
      else (bg, []))"

section \<open>Content script (content/mediaTracker.js)\<close>

subsection \<open>Media elements\<close>

text \<open>
  A DOM element is an object with identity; \<open>ref\<close> names it and the page's elements
  live in a store.  The record holds the properties of an \<open>HTMLMediaElement\<close> that the
  script reads or writes.  \<open>currentTime\<close>, \<open>volume\<close> and \<open>playbackRate\<close> have the
  IDL type \<open>double\<close> (always finite); \<open>duration\<close> is an \<open>unrestricted double\<close> (NaN
  while unknown, infinite for a live stream).  Every \<open>ref\<close> is an \<open>audio\<close> or
  \<open>video\<close> element: the script hands nothing else to the functions below.
\<close>

type_synonym ref = nat

record element =
  castToTvMediaId :: "string option"
  paused :: bool
  ended :: bool
  muted :: bool
  volume :: real
  duration :: jsnum
  currentTime :: real
  playbackRate :: real

datatype dom_error = TypeError

text \<open>Messages handed to \<open>chrome.runtime.sendMessage\<close>.\<close>

datatype agent_message = MEDIA_UPDATE payload | MEDIA_REMOVED string

datatype media_call = CallPlay | CallPause

text \<open>
  The script's closure state together with the part of the host it talks to: the element
  store, the listeners it has attached (one entry per registration), the host's list of
  animation-frame callbacks (handle, captured \<open>elementId\<close>, captured element), the
  values \<open>crypto.randomUUID()\<close> will return, the messages sent so far (oldest first),
  the calls made to \<open>play()\<close> and \<open>pause()\<close>, and whether the one-shot \<open>pagehide\<close>
  listener is still installed.
\<close>

record agent =
  heap :: "ref \<Rightarrow> element"
  trackedElements :: "(string \<times> ref) list"
  pendingUpdates :: "(string \<times> nat) list"
  activeMediaId :: "string option"
  listening :: "ref list"
  rafCallbacks :: "(nat \<times> string \<times> ref) list"
  rafNext :: nat
  uuidSource :: "nat \<Rightarrow> string"
  uuidNext :: nat
  sent :: "agent_message list"
  mediaCalls :: "(ref \<times> media_call) list"
  pagehideInstalled :: bool

definition MEDIA_EVENTS :: "string list" where
  "MEDIA_EVENTS =
     [''play'', ''pause'', ''timeupdate'', ''durationchange'', ''volumechange'', ''ratechange'',
      ''ended'', ''loadeddata'', ''loadedmetadata'', ''seeked'', ''enterpictureinpicture'',
      ''leavepictureinpicture'']"

definition safeSendMessage :: "agent \<Rightarrow> agent_message \<Rightarrow> agent" where
  "safeSendMessage s message = s\<lparr>sent := sent s @ [message]\<rparr>"

definition requestAnimationFrame :: "agent \<Rightarrow> string \<times> ref \<Rightarrow> nat \<times> agent" where
  "requestAnimationFrame s callback =
     (rafNext s,
      s\<lparr>rafCallbacks := rafCallbacks s @ [(rafNext s, callback)], rafNext := Suc (rafNext s)\<rparr>)"

fun cancelAnimationFrame :: "agent \<Rightarrow> nat option \<Rightarrow> agent" where
  "cancelAnimationFrame s None = s"
| "cancelAnimationFrame s (Some handle) =
     s\<lparr>rafCallbacks := filter (\<lambda>cb. fst cb \<noteq> handle) (rafCallbacks s)\<rparr>"

subsection \<open>ensureElementId, serializeElement\<close>

definition ensureElementId :: "agent \<Rightarrow> ref \<Rightarrow> string \<times> agent" where
  "ensureElementId s r =
     (if \<not> truthy (castToTvMediaId (heap s r))
      then (let uuid = uuidSource s (uuidNext s)
            in (uuid, s\<lparr>heap := (heap s)(r := (heap s r)\<lparr>castToTvMediaId := Some uuid\<rparr>),
                         uuidNext := Suc (uuidNext s)\<rparr>))
      else (case castToTvMediaId (heap s r) of Some i \<Rightarrow> (i, s) | None \<Rightarrow> ([], s)))"

definition serializeElement :: "agent \<Rightarrow> ref \<Rightarrow> payload \<times> agent" where
  "serializeElement s r =
     (let (eid, s1) = ensureElementId s r;
          el = heap s1 r;
          dur = (if Number_isFinite (Number (duration el)) \<and> js_less (Fin 0) (duration el)
                 then (case duration el of Fin d \<Rightarrow> Some d | _ \<Rightarrow> None) else None);
          cur = (if currentTime el \<ge> 0 then currentTime el else 0)
      in (\<lparr>elementId = eid, isPlaying = (\<not> paused el \<and> \<not> ended el), isEnded = ended el,
           p_muted = muted el, p_volume = volume el, p_duration = dur, p_currentTime = cur,
           p_playbackRate = playbackRate el\<rparr>, s1))"

subsection \<open>flushUpdate, scheduleUpdate, setActiveElement\<close>

definition flushUpdate :: "agent \<Rightarrow> ref \<Rightarrow> agent" where
  "flushUpdate s r =
     (let (eid, s1) = ensureElementId s r
      in if Some eid \<noteq> activeMediaId s1 then s1
         else (let (payload, s2) = serializeElement s1 r
               in safeSendMessage s2 (MEDIA_UPDATE payload)))"

definition cancelPending :: "agent \<Rightarrow> string \<Rightarrow> agent" where
  "cancelPending s eid =
     (if Map_has (pendingUpdates s) eid
      then (let s1 = cancelAnimationFrame s (Map_get (pendingUpdates s) eid)
            in s1\<lparr>pendingUpdates := Map_delete (pendingUpdates s1) eid\<rparr>)
      else s)"

definition scheduleUpdate :: "agent \<Rightarrow> ref \<Rightarrow> bool \<Rightarrow> agent" where
  "scheduleUpdate s r immediate =
     (let (eid, s1) = ensureElementId s r
      in if immediate then flushUpdate (cancelPending s1 eid) r
         else if Map_has (pendingUpdates s1) eid then s1
         else (let (rafId, s2) = requestAnimationFrame s1 (eid, r);
                   s3 = s2\<lparr>pendingUpdates := Map_set (pendingUpdates s2) eid rafId\<rparr>
               in s3\<lparr>pendingUpdates := Map_set (pendingUpdates s3) eid rafId\<rparr>))"

text \<open>The callback given to \<open>requestAnimationFrame\<close>, and the host running a frame.\<close>

definition rafCallback :: "agent \<Rightarrow> string \<times> ref \<Rightarrow> agent" where
  "rafCallback s cb =
     flushUpdate (s\<lparr>pendingUpdates := Map_delete (pendingUpdates s) (fst cb)\<rparr>) (snd cb)"

fun runCallbacks :: "(nat \<times> string \<times> ref) list \<Rightarrow> agent \<Rightarrow> agent" where
  "runCallbacks [] s = s"
| "runCallbacks (cb # cbs) s = runCallbacks cbs (rafCallback s (snd cb))"

definition animationFrame :: "agent \<Rightarrow> agent" where
  "animationFrame s = runCallbacks (rafCallbacks s) (s\<lparr>rafCallbacks := []\<rparr>)"

definition setActiveElement :: "agent \<Rightarrow> ref \<Rightarrow> agent" where
  "setActiveElement s r =
     (let (newId, s1) = ensureElementId s r
      in if activeMediaId s1 = Some newId then s1
         else (let s2 = (case activeMediaId s1 of
                           None \<Rightarrow> s1
                         | Some old \<Rightarrow>
                             if old \<noteq> [] then safeSendMessage (cancelPending s1 old) (MEDIA_REMOVED old)
                             else s1);
                   s3 = s2\<lparr>activeMediaId := Some newId\<rparr>
               in scheduleUpdate s3 r True))"

subsection \<open>registerElement, unregisterElement, the element listener\<close>

definition listener :: "agent \<Rightarrow> ref \<Rightarrow> string \<Rightarrow> agent" where
  "listener s r eventType =
     (let s1 = (if eventType = ''play'' then setActiveElement s r else s)
      in scheduleUpdate s1 r (eventType \<noteq> ''timeupdate''))"

definition registerElement :: "agent \<Rightarrow> ref \<Rightarrow> agent" where
  "registerElement s r =
     (let (eid, s1) = ensureElementId s r
      in if Map_has (trackedElements s1) eid then s1
         else (let s2 = s1\<lparr>listening := listening s1 @ [r],
                           trackedElements := Map_set (trackedElements s1) eid r\<rparr>
               in if \<not> truthy (activeMediaId s2) \<or> (\<not> paused (heap s2 r) \<and> \<not> ended (heap s2 r))
                  then setActiveElement s2 r else s2))"

definition unregisterElement :: "agent \<Rightarrow> ref \<Rightarrow> agent" where
  "unregisterElement s r =
     (case castToTvMediaId (heap s r) of
        None \<Rightarrow> s
      | Some eid \<Rightarrow>
          if eid = [] then s
          else (case Map_get (trackedElements s) eid of
                  None \<Rightarrow> s
                | Some tracked \<Rightarrow>
                    (let s1 = s\<lparr>listening := remove1 tracked (listening s)\<rparr>;
                         s2 = cancelPending s1 eid;
                         s3 = s2\<lparr>trackedElements := Map_delete (trackedElements s2) eid\<rparr>;
                         s4 = s3\<lparr>heap := (heap s3)(r := (heap s3 r)\<lparr>castToTvMediaId := None\<rparr>)\<rparr>
                     in if activeMediaId s4 = Some eid
                        then safeSendMessage (s4\<lparr>activeMediaId := None\<rparr>) (MEDIA_REMOVED eid)
                        else s4)))"

text \<open>The \<open>pagehide\<close> listener: unregister every element of a snapshot of the map.\<close>

fun unregisterAll :: "ref list \<Rightarrow> agent \<Rightarrow> agent" where
  "unregisterAll [] s = s"
| "unregisterAll (r # rs) s = unregisterAll rs (unregisterElement s r)"

definition pagehide :: "agent \<Rightarrow> agent" where
  "pagehide s =
     (if pagehideInstalled s
      then unregisterAll (Map_values (trackedElements s)) (s\<lparr>pagehideInstalled := False\<rparr>)
      else s)"

text \<open>
  The host dispatching a media event: every listener attached to the element runs, and
  listeners are attached for the types of \<open>MEDIA_EVENTS\<close> only.
\<close>

fun dispatchTimes :: "nat \<Rightarrow> ref \<Rightarrow> string \<Rightarrow> agent \<Rightarrow> agent" where
  "dispatchTimes 0 r eventType s = s"
| "dispatchTimes (Suc n) r eventType s = dispatchTimes n r eventType (listener s r eventType)"

definition dispatchEvent :: "agent \<Rightarrow> ref \<Rightarrow> string \<Rightarrow> agent" where
  "dispatchEvent s r eventType =
     (if eventType \<in> set MEDIA_EVENTS
      then dispatchTimes (count_list (listening s) r) r eventType s
      else s)"

subsection \<open>Command handlers\<close>

text \<open>
  Assigning to \<open>currentTime\<close>: the attribute is a \<open>double\<close>, so a value that is not
  finite is refused with a \<open>TypeError\<close>; a finite one becomes the new position.
\<close>

fun set_currentTime :: "element \<Rightarrow> jsnum \<Rightarrow> dom_error + element" where
  "set_currentTime el (Fin t) = Inr (el\<lparr>currentTime := t\<rparr>)"
| "set_currentTime el v = Inl TypeError"

definition seekTo :: "element \<Rightarrow> jsnum \<Rightarrow> dom_error + element" where
  "seekTo el targetTime =
     (let dur = (if Number_isFinite (Number (duration el)) \<and> js_less (Fin 0) (duration el)
                 then Some (duration el) else None);
          nextTime = (case dur of
                        Some d \<Rightarrow> Math_min (Math_max (Fin 0) targetTime) d
                      | None \<Rightarrow> if js_less targetTime (Fin 0) then Fin 0 else targetTime)
      in set_currentTime el nextTime)"

text \<open>Destructuring with a default: the default applies to \<open>undefined\<close> only.\<close>

fun with_default :: "jsval \<Rightarrow> jsval \<Rightarrow> jsval" where
  "with_default Undefined d = d"
| "with_default v d = v"

text \<open>\<open>element.currentTime + delta\<close> for a \<open>delta\<close> that passed \<open>Number.isFinite\<close>.\<close>

fun plus_number :: "real \<Rightarrow> jsval \<Rightarrow> jsnum" where
  "plus_number c (Number (Fin d)) = double_add c d"
| "plus_number c (Number n) = n"
| "plus_number c v = NaN"

fun number_of :: "jsval \<Rightarrow> jsnum" where
  "number_of (Number n) = n"
| "number_of v = NaN"

definition SEEK_RELATIVE :: "element \<Rightarrow> tab_message \<Rightarrow> dom_error + element" where
  "SEEK_RELATIVE el message =
     (let delta = with_default (tm_delta message) (Number (Fin 0))
      in if \<not> Number_isFinite delta then Inr el
         else seekTo el (plus_number (currentTime el) delta))"

definition SEEK_ABSOLUTE :: "element \<Rightarrow> tab_message \<Rightarrow> dom_error + element" where
  "SEEK_ABSOLUTE el message =
     (let time = with_default (tm_time message) (Number (Fin 0))
      in if \<not> Number_isFinite time then Inr el
         else seekTo el (number_of time))"

text \<open>
  \<open>commandHandlers[command]\<close> is a property read on an object literal: besides the three
  own keys it finds whatever the name denotes on \<open>Object.prototype\<close>.
\<close>

datatype handler = TogglePlay | SeekRelative | SeekAbsolute | Inherited string

definition Object_prototype_names :: "string list" where
  "Object_prototype_names =
     [''constructor'', ''hasOwnProperty'', ''isPrototypeOf'', ''propertyIsEnumerable'',
      ''toLocaleString'', ''toString'', ''valueOf'', ''__defineGetter__'', ''__defineSetter__'',
      ''__lookupGetter__'', ''__lookupSetter__'', ''__proto__'']"

definition commandHandlers :: "string \<Rightarrow> handler option" where
  "commandHandlers command =
     (if command = ''toggle-play'' then Some TogglePlay
      else if command = ''seek-relative'' then Some SeekRelative
      else if command = ''seek-absolute'' then Some SeekAbsolute
      else if command \<in> set Object_prototype_names then Some (Inherited command)
      else None)"

text \<open>
  Calling an inherited property with \<open>(element, message)\<close>: \<open>__proto__\<close> is an object, not
  a function, and \<open>__defineGetter__\<close>/\<open>__defineSetter__\<close> reject a second argument that
  is not callable; the others return a value that is not a thenable and touch nothing.
\<close>

definition inherited_throws :: "string \<Rightarrow> bool" where
  "inherited_throws name = (name \<in> set [''__proto__'', ''__defineGetter__'', ''__defineSetter__''])"

text \<open>The acknowledgement passed to \<open>sendResponse\<close>.\<close>

datatype ack = Ack (ok: bool) (error: "string option")

text \<open>
  What the message listener did: ignored the message, answered, left the answer to the
  settlement of the \<open>play()\<close> promise it started, or was left by an exception.
\<close>

datatype listener_result = NotHandled | Responded ack | PlayPending ref | Thrown dom_error

datatype promise = Fulfilled | Rejected string

definition finalize :: "agent \<Rightarrow> ref \<Rightarrow> bool \<Rightarrow> string option \<Rightarrow> agent \<times> ack" where
  "finalize s r ok_flag err = (scheduleUpdate s r True, Ack ok_flag err)"

text \<open>\<open>.catch(() => { })\<close>: the resulting promise is fulfilled whatever happened.\<close>

fun catch_ignore :: "promise \<Rightarrow> promise" where
  "catch_ignore Fulfilled = Fulfilled"
| "catch_ignore (Rejected reason) = Fulfilled"

text \<open>\<open>maybePromise.then(() => finalize(true)).catch((err) => finalize(false, err?.message))\<close>\<close>

fun then_finalize :: "agent \<Rightarrow> ref \<Rightarrow> promise \<Rightarrow> agent \<times> ack" where
  "then_finalize s r Fulfilled = finalize s r True None"
| "then_finalize s r (Rejected reason) = finalize s r False (Some reason)"

definition set_element :: "agent \<Rightarrow> ref \<Rightarrow> element \<Rightarrow> agent" where
  "set_element s r el = s\<lparr>heap := (heap s)(r := el)\<rparr>"

text \<open>
  The \<open>chrome.runtime.onMessage\<close> listener.  In the pausing branch of \<open>toggle-play\<close> the
  handler's promise is already fulfilled when the listener returns, so \<open>finalize\<close> runs
  before any other event; \<open>pause()\<close> sets \<open>paused\<close>.
\<close>

definition onMessage :: "agent \<Rightarrow> tab_message \<Rightarrow> agent \<times> listener_result" where
  "onMessage s message =
     (if tm_type message \<noteq> ''MEDIA_COMMAND'' then (s, NotHandled)
      else case Map_get (trackedElements s) (tm_elementId message) of
             None \<Rightarrow> (s, Responded (Ack False (Some ''unknown-element'')))
           | Some r \<Rightarrow>
               (case commandHandlers (tm_command message) of
                  None \<Rightarrow> (s, Responded (Ack False (Some ''unknown-element'')))
                | Some TogglePlay \<Rightarrow>
                    if paused (heap s r) \<or> ended (heap s r)
                    then (s\<lparr>mediaCalls := mediaCalls s @ [(r, CallPlay)]\<rparr>, PlayPending r)
                    else (let s1 = set_element s r ((heap s r)\<lparr>paused := True\<rparr>);
                              s2 = s1\<lparr>mediaCalls := mediaCalls s1 @ [(r, CallPause)]\<rparr>;
                              (s3, a) = then_finalize s2 r Fulfilled
                          in (s3, Responded a))
                | Some SeekRelative \<Rightarrow>
                    (case SEEK_RELATIVE (heap s r) message of
                       Inl e \<Rightarrow> (s, Thrown e)
                     | Inr el \<Rightarrow> (let (s1, a) = finalize (set_element s r el) r True None
                                in (s1, Responded a)))
                | Some SeekAbsolute \<Rightarrow>
                    (case SEEK_ABSOLUTE (heap s r) message of
                       Inl e \<Rightarrow> (s, Thrown e)
                     | Inr el \<Rightarrow> (let (s1, a) = finalize (set_element s r el) r True None
                                in (s1, Responded a)))
                | Some (Inherited name) \<Rightarrow>
                    if inherited_throws name then (s, Thrown TypeError)
                    else (let (s1, a) = finalize s r True None in (s1, Responded a))))"

text \<open>
  The \<open>play()\<close> promise of a pending \<open>toggle-play\<close> settles.  A fulfilled \<open>play()\<close> means
  the element is no longer paused; a rejected one leaves it as it was.  The handler awaits
  \<open>element.play().catch(() => { })\<close> and then returns.
\<close>

definition playSettled :: "agent \<Rightarrow> ref \<Rightarrow> promise \<Rightarrow> agent \<times> ack" where
  "playSettled s r outcome =
     (let s1 = (case outcome of
                  Fulfilled \<Rightarrow> set_element s r ((heap s r)\<lparr>paused := False\<rparr>)
                | Rejected reason \<Rightarrow> s)
      in then_finalize s1 r (catch_ignore outcome))"

subsection \<open>The page as a sequence of events\<close>

datatype agent_event =
  Register ref
| Unregister ref
| MediaEvent ref string
| AnimationFrame
| PageHide
| Message tab_message
| PlaySettled ref promise
| Mutate ref element

fun step :: "agent \<Rightarrow> agent_event \<Rightarrow> agent" where
  "step s (Register r) = registerElement s r"
| "step s (Unregister r) = unregisterElement s r"
| "step s (MediaEvent r eventType) = dispatchEvent s r eventType"
| "step s AnimationFrame = animationFrame s"
| "step s PageHide = pagehide s"
| "step s (Message message) = fst (onMessage s message)"
| "step s (PlaySettled r outcome) = fst (playSettled s r outcome)"
| "step s (Mutate r el) = set_element s r el"

fun run :: "agent \<Rightarrow> agent_event list \<Rightarrow> agent" where
  "run s [] = s"
| "run s (e # es) = run (step s e) es"

text \<open>The script right after injection, before the initial scan.\<close>

definition initial :: "(ref \<Rightarrow> element) \<Rightarrow> (nat \<Rightarrow> string) \<Rightarrow> agent" where
  "initial d uuids =
     \<lparr>heap = d, trackedElements = [], pendingUpdates = [], activeMediaId = None, listening = [],
      rafCallbacks = [], rafNext = 1, uuidSource = uuids, uuidNext = 0, sent = [],
      mediaCalls = [], pagehideInstalled = True\<rparr>"

subsection \<open>What the registry sees of one page\<close>

text \<open>
  Reading a page's message stream as the registry does: an update makes its element the
  page's live one, a removal of the live element empties the slot.  \<open>slot_ok\<close> holds when
  no update ever arrives for an element while another one of the page is still live.
\<close>

fun slot_after :: "string option \<Rightarrow> agent_message list \<Rightarrow> string option" where
  "slot_after cur [] = cur"
| "slot_after cur (MEDIA_UPDATE p # ms) = slot_after (Some (elementId p)) ms"
| "slot_after cur (MEDIA_REMOVED i # ms) = slot_after (if cur = Some i then None else cur) ms"

fun slot_ok :: "string option \<Rightarrow> agent_message list \<Rightarrow> bool" where
  "slot_ok cur [] = True"
| "slot_ok cur (MEDIA_UPDATE p # ms) =
     ((cur = None \<or> cur = Some (elementId p)) \<and> slot_ok (Some (elementId p)) ms)"
| "slot_ok cur (MEDIA_REMOVED i # ms) = slot_ok (if cur = Some i then None else cur) ms"


section \<open>Notions used in the statements\<close>

text \<open>
  The order the popup expects between two neighbours \<open>x\<close>, \<open>y\<close> of the session list:
  \<open>x.isPlaying \<ge> y.isPlaying\<close>, and \<open>x.lastUpdated \<ge> y.lastUpdated\<close> when both play
  or both do not.
\<close>

definition adjacent_ok :: "session \<Rightarrow> session \<Rightarrow> bool" where
  "adjacent_ok x y =
     (isPlaying y \<le> isPlaying x \<and> (isPlaying x = isPlaying y \<longrightarrow> lastUpdated y \<le> lastUpdated x))"

definition session_le :: "session \<Rightarrow> session \<Rightarrow> bool" where
  "session_le a b = (compareSessions a b \<le> 0)"

text \<open>The keys of the entries that belong to tab \<open>t\<close>, and the map without that tab.\<close>

definition owned_keys :: "int \<Rightarrow> (string \<times> session) list \<Rightarrow> string set" where
  "owned_keys t es = {k. \<exists>v. (k, v) \<in> set es \<and> tabId v = t}"

definition evicted :: "int \<Rightarrow> background \<Rightarrow> background" where
  "evicted t bg = bg\<lparr>mediaSessions := filter (\<lambda>kv. tabId (snd kv) \<noteq> t) (mediaSessions bg)\<rparr>"

text \<open>
  The invariant behind the single active slot: the message stream is well-formed for the
  registry, the element the registry holds for this page (if any) is the active one, the
  active id is never the empty string, and no generated UUID is empty.
\<close>

definition slot_inv :: "agent \<Rightarrow> bool" where
  "slot_inv s =
     (slot_ok None (sent s)
      \<and> (slot_after None (sent s) = None \<or> slot_after None (sent s) = activeMediaId s)
      \<and> activeMediaId s \<noteq> Some []
      \<and> [] \<notin> range (uuidSource s))"

text \<open>The payload \<open>serializeElement\<close> builds for an element that carries the id \<open>eid\<close>.\<close>

definition payload_of :: "string \<Rightarrow> element \<Rightarrow> payload" where
  "payload_of eid el =
     \<lparr>elementId = eid, isPlaying = (\<not> paused el \<and> \<not> ended el), isEnded = ended el,
      p_muted = muted el, p_volume = volume el,
      p_duration = (case duration el of Fin d \<Rightarrow> if 0 < d then Some d else None | _ \<Rightarrow> None),
      p_currentTime = (if currentTime el \<ge> 0 then currentTime el else 0),
      p_playbackRate = playbackRate el\<rparr>"

subsection \<open>Concrete pages and registries\<close>

definition ex_session :: "int \<Rightarrow> string \<Rightarrow> string \<Rightarrow> bool \<Rightarrow> int \<Rightarrow> session" where
  "ex_session t sid eid playing updated =
     \<lparr>elementId = eid, isPlaying = playing, isEnded = False, p_muted = False, p_volume = 1,
      p_duration = Some 120, p_currentTime = 10, p_playbackRate = 1,
      tabId = t, sessionId = sid, lastUpdated = updated\<rparr>"

definition ex_bg :: background where
  "ex_bg =
     \<lparr>mediaSessions =
        [(''1:a'', ex_session 1 ''1:a'' ''a'' False 5), (''1:b'', ex_session 1 ''1:b'' ''b'' True 3),
         (''2:c'', ex_session 2 ''2:c'' ''c'' False 9), (''2:d'', ex_session 2 ''2:d'' ''d'' True 7)],
      popupPorts = [0, 1]\<rparr>"

definition ex_port_message :: port_message where
  "ex_port_message =
     \<lparr>pm_type = ''MEDIA_COMMAND'', pm_sessionId = Some ''3:z'', pm_command = ''toggle-play'',
      pm_delta = Undefined, pm_time = Undefined\<rparr>"

definition ex_element :: element where
  "ex_element =
     \<lparr>castToTvMediaId = None, paused = True, ended = False, muted = False, volume = 1,
      duration = Fin 120, currentTime = 10, playbackRate = 1\<rparr>"

definition ex_uuids :: "nat \<Rightarrow> string" where
  "ex_uuids n = (if n = 0 then ''a'' else if n = 1 then ''b'' else ''c'')"

text \<open>A page with two paused players after the initial scan: \<open>a\<close> is active, \<open>b\<close> is not.\<close>

definition ex_page :: agent where
  "ex_page = run (initial (\<lambda>r. ex_element) ex_uuids) [Register 0, Register 1]"

text \<open>The same page once the first player turned out to be a live stream.\<close>

definition ex_live :: agent where
  "ex_live = step ex_page (Mutate 0 (ex_element\<lparr>castToTvMediaId := Some ''a'', duration := PosInf\<rparr>))"

text \<open>
  The first player has started and reported one time update that still waits for the
  next frame.
\<close>

definition ex_playing :: agent where
  "ex_playing =
     run ex_page [Mutate 0 (ex_element\<lparr>castToTvMediaId := Some ''a'', paused := False\<rparr>),
                  MediaEvent 0 ''play'', MediaEvent 0 ''timeupdate'']"

text \<open>The live stream positioned at the far end of the doubles.\<close>

definition ex_far :: agent where
  "ex_far =
     step ex_page
       (Mutate 0 (ex_element\<lparr>castToTvMediaId := Some ''a'', duration := PosInf,
                              currentTime := 2 ^ 1023\<rparr>))"

definition ex_command :: "string \<Rightarrow> string \<Rightarrow> jsval \<Rightarrow> jsval \<Rightarrow> tab_message" where
  "ex_command eid command delta time =
     \<lparr>tm_type = ''MEDIA_COMMAND'', tm_elementId = eid, tm_command = command, tm_delta = delta,
      tm_time = time\<rparr>"

section \<open>Properties\<close>

lemmas agent_eval = ex_page_def ex_live_def ex_playing_def ex_far_def payload_of_def initial_def ex_element_def ex_uuids_def
  ex_command_def registerElement_def
  ensureElementId_def Let_def Map_has_def Map_get_def Map_delete_def Map_values_def
  setActiveElement_def scheduleUpdate_def flushUpdate_def cancelPending_def
  serializeElement_def safeSendMessage_def listener_def dispatchEvent_def MEDIA_EVENTS_def
  requestAnimationFrame_def animationFrame_def rafCallback_def unregisterElement_def
  pagehide_def onMessage_def commandHandlers_def Object_prototype_names_def
  inherited_throws_def finalize_def set_element_def playSettled_def SEEK_RELATIVE_def
  SEEK_ABSOLUTE_def seekTo_def

lemmas bg_eval = ex_bg_def ex_session_def ex_port_message_def serializeSessions_def
  Map_values_def Map_has_def Map_get_def Map_delete_def compareSessions_def
  broadcastSessions_def evicted_def adjacent_ok_def


subsection \<open>The session list is ordered\<close>

lemma session_le_iff: "session_le a b = adjacent_ok a b"
  by (auto simp: session_le_def adjacent_ok_def compareSessions_def)

lemma session_le_total: "\<not> session_le a b \<Longrightarrow> session_le b a"
  by (auto simp: session_le_def compareSessions_def split: if_splits)

lemma session_le_trans: "session_le a b \<Longrightarrow> session_le b c \<Longrightarrow> session_le a c"
  by (auto simp: session_le_def compareSessions_def split: if_splits)

lemma set_sort_insert: "set (sort_insert cmp x ys) = insert x (set ys)"
  by (induction ys) auto

lemma sorted_sort_insert:
  "sorted_wrt session_le ys \<Longrightarrow> sorted_wrt session_le (sort_insert compareSessions x ys)"
proof (induction ys)
  case Nil
  show ?case by simp
next
  case (Cons y ys)
  show ?case
  proof (cases "compareSessions x y \<le> 0")
    case True
    then have xy: "session_le x y" by (simp add: session_le_def)
    have "\<forall>z\<in>set ys. session_le x z"
      using Cons.prems xy session_le_trans by auto
    with True xy Cons.prems show ?thesis by simp
  next
    case False
    then have yx: "session_le y x"
      using session_le_total by (simp add: session_le_def)
    from Cons have "sorted_wrt session_le (sort_insert compareSessions x ys)" by simp
    with False yx Cons.prems show ?thesis
      by (auto simp: set_sort_insert)
  qed
qed

lemma sorted_Array_sort: "sorted_wrt session_le (Array_sort compareSessions xs)"
  by (induction xs) (simp_all add: sorted_sort_insert)

text \<open>
  Claim C3.  The list \<open>serializeSessions\<close> hands to the popups is ordered: for every two
  neighbours \<open>x\<close>, \<open>y\<close>, \<open>x.isPlaying \<ge> y.isPlaying\<close>, and when the two agree on
  \<open>isPlaying\<close>, \<open>x.lastUpdated \<ge> y.lastUpdated\<close>.
\<close>

theorem serializeSessions_sorted: "successively adjacent_ok (serializeSessions bg)"
proof -
  have "sorted_wrt session_le (serializeSessions bg)"
    by (simp add: serializeSessions_def sorted_Array_sort)
  then have "successively session_le (serializeSessions bg)"
    by (rule successively_if_sorted_wrt)
  then show ?thesis
    by (simp add: session_le_iff [abs_def])
qed

theorem serializeSessions_sorted_witness:
  "map sessionId (serializeSessions ex_bg) = [''2:d'', ''1:b'', ''2:c'', ''1:a'']
   \<and> successively adjacent_ok (serializeSessions ex_bg)"
  using serializeSessions_sorted [of ex_bg] by (simp add: bg_eval)


subsection \<open>Closing a tab\<close>

lemma owned_keys_Nil: "owned_keys t [] = {}"
  by (simp add: owned_keys_def)

lemma owned_keys_Cons:
  "owned_keys t ((k, v) # es) = (if tabId v = t then insert k (owned_keys t es) else owned_keys t es)"
  by (auto simp: owned_keys_def)

lemma onRemoved_loop_result:
  "onRemoved_loop t es (m, h) =
     (filter (\<lambda>kv. fst kv \<notin> owned_keys t es) m, h \<or> owned_keys t es \<noteq> {})"
proof (induction es arbitrary: m h)
  case Nil
  show ?case by (simp add: owned_keys_Nil)
next
  case (Cons e es)
  obtain sid sess where e: "e = (sid, sess)" by (cases e)
  show ?case
  proof (cases "tabId sess = t")
    case True
    have "filter (\<lambda>kv. fst kv \<notin> owned_keys t es) (Map_delete m sid)
            = filter (\<lambda>kv. fst kv \<notin> insert sid (owned_keys t es)) m"
      by (induction m) (auto simp: Map_delete_def)
    with True show ?thesis
      unfolding e by (simp add: Cons.IH owned_keys_Cons)
  next
    case False
    then show ?thesis
      unfolding e by (simp add: Cons.IH owned_keys_Cons)
  qed
qed

lemma distinct_owned_keys:
  assumes "distinct (map fst m)" and "(k, v) \<in> set m"
  shows "k \<in> owned_keys t m \<longleftrightarrow> tabId v = t"
proof
  assume "k \<in> owned_keys t m"
  then obtain v' where v': "(k, v') \<in> set m" "tabId v' = t"
    by (auto simp: owned_keys_def)
  from assms v'(1) have "v' = v"
    by (meson eq_key_imp_eq_value)
  with v'(2) show "tabId v = t" by simp
next
  assume "tabId v = t"
  with assms(2) show "k \<in> owned_keys t m" by (auto simp: owned_keys_def)
qed

lemma onRemoved_loop_distinct:
  assumes "distinct (map fst m)"
  shows "onRemoved_loop t m (m, False) =
           (filter (\<lambda>kv. tabId (snd kv) \<noteq> t) m, \<exists>kv\<in>set m. tabId (snd kv) = t)"
proof -
  have "filter (\<lambda>kv. fst kv \<notin> owned_keys t m) m = filter (\<lambda>kv. tabId (snd kv) \<noteq> t) m"
  proof (rule filter_cong [OF refl])
    fix kv assume "kv \<in> set m"
    then have "(fst kv, snd kv) \<in> set m" by simp
    from distinct_owned_keys [OF assms this]
    show "(fst kv \<notin> owned_keys t m) = (tabId (snd kv) \<noteq> t)" by simp
  qed
  moreover have "(owned_keys t m \<noteq> {}) = (\<exists>kv\<in>set m. tabId (snd kv) = t)"
    by (force simp: owned_keys_def)
  ultimately show ?thesis
    by (simp add: onRemoved_loop_result)
qed

text \<open>
  Claim C6.  When a tab closes, every session of that tab is deleted and every other one
  is kept; if something was deleted the popups get exactly one broadcast (one message per
  connected port, carrying the new list), otherwise nothing is sent.  Evicting the same
  tab again right away changes nothing and sends nothing.  The session map is a \<open>Map\<close>,
  so its keys are distinct.
\<close>

theorem onRemoved_evicts:
  assumes "distinct (map fst (mediaSessions bg))"
  shows "onRemoved bg t =
           (evicted t bg,
            if \<exists>kv\<in>set (mediaSessions bg). tabId (snd kv) = t
            then broadcastSessions (evicted t bg) else [])
         \<and> (\<forall>kv\<in>set (mediaSessions (evicted t bg)). tabId (snd kv) \<noteq> t)
         \<and> length (broadcastSessions (evicted t bg)) = length (popupPorts bg)
         \<and> onRemoved (evicted t bg) t = (evicted t bg, [])"
proof -
  have d2: "distinct (map fst (mediaSessions (evicted t bg)))"
    using assms by (simp add: evicted_def distinct_map_filter)
  have first: "onRemoved bg t =
           (evicted t bg,
            if \<exists>kv\<in>set (mediaSessions bg). tabId (snd kv) = t
            then broadcastSessions (evicted t bg) else [])"
    by (simp add: onRemoved_def onRemoved_loop_distinct [OF assms] evicted_def Let_def)
  have gone: "\<forall>kv\<in>set (mediaSessions (evicted t bg)). tabId (snd kv) \<noteq> t"
    by (simp add: evicted_def)
  have ports: "length (broadcastSessions (evicted t bg)) = length (popupPorts bg)"
    by (simp add: broadcastSessions_def evicted_def)
  have second: "onRemoved (evicted t bg) t = (evicted t bg, [])"
    by (simp add: onRemoved_def onRemoved_loop_distinct [OF d2] Let_def) (simp add: evicted_def)
  from first gone ports second show ?thesis by simp
qed

theorem onRemoved_evicts_witness:
  "distinct (map fst (mediaSessions ex_bg))
   \<and> map fst (mediaSessions (fst (onRemoved ex_bg 1))) = [''2:c'', ''2:d'']
   \<and> snd (onRemoved ex_bg 1) = broadcastSessions (evicted 1 ex_bg)
   \<and> length (snd (onRemoved ex_bg 1)) = 2
   \<and> onRemoved (evicted 1 ex_bg) 1 = (evicted 1 ex_bg, [])"
proof -
  have d: "distinct (map fst (mediaSessions ex_bg))" by (simp add: ex_bg_def)
  have some: "\<exists>kv\<in>set (mediaSessions ex_bg). tabId (snd kv) = 1"
    by (simp add: ex_bg_def ex_session_def)
  have keys: "map fst (mediaSessions (evicted 1 ex_bg)) = [''2:c'', ''2:d'']"
    by (simp add: ex_bg_def ex_session_def evicted_def)
  have ports: "popupPorts ex_bg = [0, 1]" by (simp add: ex_bg_def)
  from onRemoved_evicts [OF d, of 1] d some keys ports show ?thesis by simp
qed

subsection \<open>Commands for sessions that are gone\<close>

text \<open>
  Claim C7.  A command whose \<open>sessionId\<close> is not a key of the session map (or is missing
  altogether) is dropped: the worker's state is unchanged and nothing goes out, neither to
  a tab nor to a popup port (so no error reaches the sender either).
\<close>

theorem dispatch_unknown_session_dropped:
  assumes "pm_sessionId message \<notin> Some ` set (map fst (mediaSessions bg))"
  shows "dispatchMediaCommand bg message delivered = (bg, [])
       \<and> port_onMessage bg message delivered = (bg, [])"
  using assms
  by (cases "pm_sessionId message")
     (auto simp: dispatchMediaCommand_def port_onMessage_def Map_has_def)

theorem dispatch_unknown_session_dropped_witness:
  "pm_sessionId ex_port_message = Some ''3:z''
   \<and> map fst (mediaSessions ex_bg) = [''1:a'', ''1:b'', ''2:c'', ''2:d'']
   \<and> dispatchMediaCommand ex_bg ex_port_message True = (ex_bg, [])
   \<and> port_onMessage ex_bg ex_port_message True = (ex_bg, [])"
proof -
  have a: "pm_sessionId ex_port_message = Some ''3:z''" by (simp add: ex_port_message_def)
  have k: "map fst (mediaSessions ex_bg) = [''1:a'', ''1:b'', ''2:c'', ''2:d'']"
    by (simp add: ex_bg_def)
  have b: "pm_sessionId ex_port_message \<notin> Some ` set (map fst (mediaSessions ex_bg))"
    unfolding a k by simp
  from dispatch_unknown_session_dropped [OF b, of True] a k show ?thesis by simp
qed


subsection \<open>One reported element per page\<close>

lemma slot_ok_append:
  "slot_ok cur (ms @ ms') = (slot_ok cur ms \<and> slot_ok (slot_after cur ms) ms')"
  by (induction cur ms rule: slot_ok.induct) auto

lemma slot_after_append:
  "slot_after cur (ms @ ms') = slot_after (slot_after cur ms) ms'"
  by (induction cur ms rule: slot_after.induct) auto

lemma ensure_fields:
  assumes "ensureElementId s r = (i, s1)"
  shows "sent s1 = sent s" "activeMediaId s1 = activeMediaId s" "uuidSource s1 = uuidSource s"
    "pendingUpdates s1 = pendingUpdates s" "trackedElements s1 = trackedElements s"
    "rafCallbacks s1 = rafCallbacks s" "rafNext s1 = rafNext s" "listening s1 = listening s"
    "mediaCalls s1 = mediaCalls s" "pagehideInstalled s1 = pagehideInstalled s"
  using assms by (auto simp: ensureElementId_def Let_def split: if_splits option.splits)

lemma ensure_id:
  assumes "[] \<notin> range (uuidSource s)" "ensureElementId s r = (i, s1)"
  shows "i \<noteq> []" "castToTvMediaId (heap s1 r) = Some i"
proof -
  have u: "uuidSource s (uuidNext s) \<noteq> []" using assms(1) by (metis rangeI)
  show "i \<noteq> []" using assms(2) u
    by (cases "castToTvMediaId (heap s r)") (auto simp: ensureElementId_def Let_def split: if_splits)
  show "castToTvMediaId (heap s1 r) = Some i" using assms(2) u
    by (cases "castToTvMediaId (heap s r)") (auto simp: ensureElementId_def Let_def split: if_splits)
qed

lemma ensure_idem:
  "castToTvMediaId (heap s r) = Some i \<Longrightarrow> i \<noteq> [] \<Longrightarrow> ensureElementId s r = (i, s)"
  by (simp add: ensureElementId_def)

lemma slot_inv_ensure:
  "slot_inv s \<Longrightarrow> ensureElementId s r = (i, s1) \<Longrightarrow> slot_inv s1"
  by (simp add: slot_inv_def ensure_fields)

lemma slot_inv_cancelPending: "slot_inv s \<Longrightarrow> slot_inv (cancelPending s eid)"
  by (cases "Map_get (pendingUpdates s) eid") (simp_all add: slot_inv_def cancelPending_def Let_def)

lemma cancelPending_fields:
  "sent (cancelPending s eid) = sent s" "activeMediaId (cancelPending s eid) = activeMediaId s"
  "uuidSource (cancelPending s eid) = uuidSource s" "heap (cancelPending s eid) = heap s"
  "uuidNext (cancelPending s eid) = uuidNext s"
  by (cases "Map_get (pendingUpdates s) eid"; simp add: cancelPending_def Let_def)+

lemma serialize_elementId:
  assumes "[] \<notin> range (uuidSource s)" "serializeElement s r = (p, s1)"
  shows "castToTvMediaId (heap s r) = Some i \<Longrightarrow> i \<noteq> [] \<Longrightarrow> elementId p = i \<and> s1 = s"
  using assms(2) by (auto simp: serializeElement_def ensure_idem Let_def split: prod.splits)

lemma flushUpdate_cases:
  assumes u: "[] \<notin> range (uuidSource s)"
  shows "activeMediaId (flushUpdate s r) = activeMediaId s
       \<and> uuidSource (flushUpdate s r) = uuidSource s
       \<and> (sent (flushUpdate s r) = sent s
          \<or> (\<exists>p. sent (flushUpdate s r) = sent s @ [MEDIA_UPDATE p]
                 \<and> activeMediaId s = Some (elementId p)))"
proof -
  obtain i s1 where e: "ensureElementId s r = (i, s1)" by (cases "ensureElementId s r")
  note f = ensure_fields [OF e] and d = ensure_id [OF u e]
  obtain p s2 where p: "serializeElement s1 r = (p, s2)" by (cases "serializeElement s1 r")
  have u1: "[] \<notin> range (uuidSource s1)" using u f by simp
  from serialize_elementId [OF u1 p d(2) d(1)] have ps: "elementId p = i" "s2 = s1" by simp_all
  show ?thesis
    by (auto simp: flushUpdate_def e p ps f safeSendMessage_def)
qed

lemma slot_inv_flushUpdate: "slot_inv s \<Longrightarrow> slot_inv (flushUpdate s r)"
proof -
  assume inv: "slot_inv s"
  then have u: "[] \<notin> range (uuidSource s)" by (simp add: slot_inv_def)
  from flushUpdate_cases [OF u, of r] inv show ?thesis
    by (auto simp: slot_inv_def slot_ok_append slot_after_append)
qed

lemma slot_inv_pending_update:
  "slot_inv (s\<lparr>pendingUpdates := x\<rparr>) = slot_inv s"
  "slot_inv (s\<lparr>rafCallbacks := y\<rparr>) = slot_inv s"
  "slot_inv (s\<lparr>rafNext := n\<rparr>) = slot_inv s"
  "slot_inv (s\<lparr>listening := l\<rparr>) = slot_inv s"
  "slot_inv (s\<lparr>trackedElements := t\<rparr>) = slot_inv s"
  "slot_inv (s\<lparr>heap := d\<rparr>) = slot_inv s"
  "slot_inv (s\<lparr>mediaCalls := c\<rparr>) = slot_inv s"
  "slot_inv (s\<lparr>pagehideInstalled := b\<rparr>) = slot_inv s"
  "slot_inv (s\<lparr>uuidNext := k\<rparr>) = slot_inv s"
  by (simp_all add: slot_inv_def)

lemma slot_inv_scheduleUpdate: "slot_inv s \<Longrightarrow> slot_inv (scheduleUpdate s r immediate)"
proof -
  assume inv: "slot_inv s"
  obtain i s1 where e: "ensureElementId s r = (i, s1)" by (cases "ensureElementId s r")
  have inv1: "slot_inv s1" using inv e by (rule slot_inv_ensure)
  show ?thesis
    by (simp add: scheduleUpdate_def e Let_def requestAnimationFrame_def inv1
        slot_inv_flushUpdate slot_inv_cancelPending slot_inv_pending_update)
qed

lemma slot_inv_setActiveElement: "slot_inv s \<Longrightarrow> slot_inv (setActiveElement s r)"
proof -
  assume inv: "slot_inv s"
  obtain i s1 where e: "ensureElementId s r = (i, s1)" by (cases "ensureElementId s r")
  have inv1: "slot_inv s1" using inv e by (rule slot_inv_ensure)
  have u: "[] \<notin> range (uuidSource s)" using inv by (simp add: slot_inv_def)
  note i = ensure_id [OF u e]
  show ?thesis
  proof (cases "activeMediaId s1 = Some i")
    case True
    then show ?thesis by (simp add: setActiveElement_def e inv1)
  next
    case False
    show ?thesis
    proof (cases "activeMediaId s1")
      case None
      have "slot_inv (s1\<lparr>activeMediaId := Some i\<rparr>)"
        using inv1 None i by (auto simp: slot_inv_def)
      then show ?thesis
        using False None by (simp add: setActiveElement_def e slot_inv_scheduleUpdate)
    next
      case (Some old)
      then have old: "old \<noteq> []" using inv1 by (auto simp: slot_inv_def)
      have "slot_inv ((safeSendMessage (cancelPending s1 old) (MEDIA_REMOVED old))\<lparr>activeMediaId := Some i\<rparr>)"
        using inv1 Some i
        by (auto simp: slot_inv_def safeSendMessage_def cancelPending_fields slot_ok_append
            slot_after_append)
      then show ?thesis
        using False Some old by (simp add: setActiveElement_def e slot_inv_scheduleUpdate)
    qed
  qed
qed

lemma slot_inv_listener: "slot_inv s \<Longrightarrow> slot_inv (listener s r eventType)"
  by (simp add: listener_def Let_def slot_inv_scheduleUpdate slot_inv_setActiveElement)

lemma slot_inv_dispatchTimes: "slot_inv s \<Longrightarrow> slot_inv (dispatchTimes n r eventType s)"
  by (induction n arbitrary: s) (simp_all add: slot_inv_listener)

lemma slot_inv_dispatchEvent: "slot_inv s \<Longrightarrow> slot_inv (dispatchEvent s r eventType)"
  by (simp add: dispatchEvent_def slot_inv_dispatchTimes)

lemma slot_inv_registerElement: "slot_inv s \<Longrightarrow> slot_inv (registerElement s r)"
proof -
  assume inv: "slot_inv s"
  obtain i s1 where e: "ensureElementId s r = (i, s1)" by (cases "ensureElementId s r")
  have inv1: "slot_inv s1" using inv e by (rule slot_inv_ensure)
  then have "slot_inv (s1\<lparr>listening := listening s1 @ [r],
                       trackedElements := Map_set (trackedElements s1) i r\<rparr>)"
    by (simp add: slot_inv_def)
  then show ?thesis
    using inv1 by (simp add: registerElement_def e Let_def slot_inv_setActiveElement)
qed

lemma slot_inv_unregisterElement: "slot_inv s \<Longrightarrow> slot_inv (unregisterElement s r)"
proof -
  assume inv: "slot_inv s"
  show ?thesis
  proof (cases "castToTvMediaId (heap s r)")
    case None
    then show ?thesis using inv by (simp add: unregisterElement_def)
  next
    case (Some eid)
    show ?thesis
    proof (cases "Map_get (trackedElements s) eid")
      case None
      then show ?thesis using inv Some by (simp add: unregisterElement_def)
    next
      case (Some tracked)
      then show ?thesis
        using inv \<open>castToTvMediaId (heap s r) = Some eid\<close>
        by (auto simp: unregisterElement_def Let_def slot_inv_def cancelPending_fields
            safeSendMessage_def slot_ok_append slot_after_append)
    qed
  qed
qed

lemma slot_inv_unregisterAll: "slot_inv s \<Longrightarrow> slot_inv (unregisterAll rs s)"
  by (induction rs arbitrary: s) (simp_all add: slot_inv_unregisterElement)

lemma slot_inv_pagehide: "slot_inv s \<Longrightarrow> slot_inv (pagehide s)"
  by (simp add: pagehide_def slot_inv_unregisterAll slot_inv_pending_update)

lemma slot_inv_rafCallback: "slot_inv s \<Longrightarrow> slot_inv (rafCallback s cb)"
  by (simp add: rafCallback_def slot_inv_flushUpdate slot_inv_pending_update)

lemma slot_inv_runCallbacks: "slot_inv s \<Longrightarrow> slot_inv (runCallbacks cbs s)"
  by (induction cbs arbitrary: s) (simp_all add: slot_inv_rafCallback)

lemma slot_inv_animationFrame: "slot_inv s \<Longrightarrow> slot_inv (animationFrame s)"
  by (simp add: animationFrame_def slot_inv_runCallbacks slot_inv_pending_update)

lemma slot_inv_set_element: "slot_inv s \<Longrightarrow> slot_inv (set_element s r el)"
  by (simp add: set_element_def slot_inv_pending_update)

lemma slot_inv_playSettled: "slot_inv s \<Longrightarrow> slot_inv (fst (playSettled s r outcome))"
  by (cases outcome)
     (simp_all add: playSettled_def finalize_def slot_inv_scheduleUpdate slot_inv_set_element)

lemma slot_inv_onMessage: "slot_inv s \<Longrightarrow> slot_inv (fst (onMessage s message))"
  by (simp add: onMessage_def finalize_def Let_def slot_inv_pending_update slot_inv_set_element
      slot_inv_scheduleUpdate split: option.splits handler.splits sum.splits)

lemma slot_inv_step: "slot_inv s \<Longrightarrow> slot_inv (step s e)"
  by (cases e)
     (simp_all add: slot_inv_registerElement slot_inv_unregisterElement slot_inv_dispatchEvent
        slot_inv_animationFrame slot_inv_pagehide slot_inv_onMessage slot_inv_playSettled
        slot_inv_set_element)

lemma slot_inv_run: "slot_inv s \<Longrightarrow> slot_inv (run s es)"
  by (induction es arbitrary: s) (simp_all add: slot_inv_step)

lemma slot_inv_initial: "[] \<notin> range uuids \<Longrightarrow> slot_inv (initial d uuids)"
  by (simp add: slot_inv_def initial_def)

text \<open>
  Claim C4.  Whatever sequence of registrations, removals, media events, animation frames,
  commands and page changes a page goes through, the registry never holds two elements of
  the page at once: an update for an element arrives only when the page's slot is empty or
  already holds that element, and the element the registry holds, if any, is the active
  one.  UUIDs are non-empty strings.
\<close>

theorem single_active_slot:
  assumes "\<forall>n. uuids n \<noteq> []"
  shows "slot_ok None (sent (run (initial d uuids) es))
       \<and> (slot_after None (sent (run (initial d uuids) es)) = None
          \<or> slot_after None (sent (run (initial d uuids) es))
               = activeMediaId (run (initial d uuids) es))"
proof -
  have "[] \<notin> range uuids" using assms by (metis rangeE)
  then have "slot_inv (run (initial d uuids) es)"
    by (intro slot_inv_run slot_inv_initial)
  then show ?thesis by (simp add: slot_inv_def)
qed

theorem single_active_slot_witness:
  "(\<forall>n. ex_uuids n \<noteq> [])
   \<and> map (case_agent_message elementId id) (sent (run ex_page [MediaEvent 1 ''play'']))
       = [''a'', ''a'', ''b'', ''b'']
   \<and> slot_ok None (sent (run ex_page [MediaEvent 1 ''play'']))
   \<and> slot_after None (sent (run ex_page [MediaEvent 1 ''play'']))
       = activeMediaId (run ex_page [MediaEvent 1 ''play''])"
proof -
  have u: "\<forall>n. ex_uuids n \<noteq> []" by (simp add: ex_uuids_def)
  have r: "run (initial (\<lambda>r. ex_element) ex_uuids) [Register 0, Register 1, MediaEvent 1 ''play'']
             = run ex_page [MediaEvent 1 ''play'']"
    by (simp add: ex_page_def)
  have m: "map (case_agent_message elementId id) (sent (run ex_page [MediaEvent 1 ''play'']))
       = [''a'', ''a'', ''b'', ''b'']"
    by (simp add: agent_eval)
  have a: "slot_after None (sent (run ex_page [MediaEvent 1 ''play''])) = Some ''b''"
    by (simp add: agent_eval)
  have b: "activeMediaId (run ex_page [MediaEvent 1 ''play'']) = Some ''b''"
    by (simp add: agent_eval)
  from single_active_slot [OF u, of "\<lambda>r. ex_element" "[Register 0, Register 1, MediaEvent 1 ''play'']"]
    u m a b show ?thesis unfolding r by simp
qed


subsection \<open>Seeking\<close>

lemma ensure_currentTime:
  "currentTime (heap (snd (ensureElementId s r)) q) = currentTime (heap s q)"
  by (simp add: ensureElementId_def Let_def split: option.splits)

lemma serialize_currentTime:
  "currentTime (heap (snd (serializeElement s r)) q) = currentTime (heap s q)"
  by (simp add: serializeElement_def Let_def split: prod.splits)
     (metis ensure_currentTime snd_conv)

lemma flushUpdate_currentTime:
  "currentTime (heap (flushUpdate s r) q) = currentTime (heap s q)"
proof -
  obtain i s1 where e: "ensureElementId s r = (i, s1)" by (cases "ensureElementId s r")
  obtain p s2 where p: "serializeElement s1 r = (p, s2)" by (cases "serializeElement s1 r")
  have 1: "currentTime (heap s1 q) = currentTime (heap s q)"
    using ensure_currentTime [of s r q] e by simp
  have 2: "currentTime (heap s2 q) = currentTime (heap s1 q)"
    using serialize_currentTime [of s1 r q] p by simp
  show ?thesis
    by (simp add: flushUpdate_def e p 1 2 safeSendMessage_def)
qed

lemma scheduleUpdate_immediate_currentTime:
  "currentTime (heap (scheduleUpdate s r True) q) = currentTime (heap s q)"
proof -
  obtain i s1 where e: "ensureElementId s r = (i, s1)" by (cases "ensureElementId s r")
  have 1: "currentTime (heap s1 q) = currentTime (heap s q)"
    using ensure_currentTime [of s r q] e by simp
  show ?thesis
    by (simp add: scheduleUpdate_def e flushUpdate_currentTime cancelPending_fields 1)
qed




lemma seekTo_overflow:
  assumes "\<nexists>D. duration el = Fin D \<and> 0 < D"
  shows "seekTo el PosInf = Inl TypeError"
  using assms by (cases "duration el") (auto simp: seekTo_def Let_def)

lemma onMessage_seek:
  assumes "tm_type message = ''MEDIA_COMMAND''"
    and "Map_get (trackedElements s) (tm_elementId message) = Some r"
    and "tm_command message = ''seek-absolute'' \<and> tm_time message = Number (Fin t)
           \<and> target = Fin t
         \<or> tm_command message = ''seek-relative'' \<and> tm_delta message = Number (Fin d)
           \<and> target = double_add (currentTime (heap s r)) d"
  shows "onMessage s message =
           (case seekTo (heap s r) target of
              Inl e \<Rightarrow> (s, Thrown e)
            | Inr el \<Rightarrow> (scheduleUpdate (set_element s r el) r True, Responded (Ack True None)))"
  using assms
  by (auto simp: onMessage_def commandHandlers_def SEEK_ABSOLUTE_def SEEK_RELATIVE_def
      finalize_def split: sum.splits)

lemma floor_log2_eq:
  "0 < x \<Longrightarrow> 2 powr (of_int k) \<le> x \<Longrightarrow> x < 2 powr (of_int (k + 1)) \<Longrightarrow> \<lfloor>log 2 x\<rfloor> = k"
  using floor_log_eq_powr_iff [of x 2 k] by simp

lemma double_round_multiple:
  assumes "x \<noteq> 0" and "\<lfloor>log 2 \<bar>x\<bar>\<rfloor> = k"
    and "x / 2 powi (max k (- 1022) - 52) = of_int m"
  shows "double_round x =
           (if 2 ^ 1024 \<le> x then PosInf else if x \<le> - (2 ^ 1024) then NegInf else Fin x)"
proof -
  let ?q = "(2::real) powi (max k (- 1022) - 52)"
  have q: "?q \<noteq> 0" by simp
  have r: "round_half_even (x / ?q) = m"
    unfolding assms(3) by (simp add: round_half_even_def)
  have y: "of_int m * ?q = x"
    using assms(3) q by (metis nonzero_divide_eq_eq)
  have "double_round x =
          (if 2 ^ 1024 \<le> of_int (round_half_even (x / ?q)) * ?q then PosInf
           else if of_int (round_half_even (x / ?q)) * ?q \<le> - (2 ^ 1024) then NegInf
           else Fin (of_int (round_half_even (x / ?q)) * ?q))"
    using assms(1) by (simp only: double_round_def Let_def assms(2) if_False)
  then show ?thesis unfolding r y .
qed

lemma double_round_tie:
  assumes "x \<noteq> 0" and "\<lfloor>log 2 \<bar>x\<bar>\<rfloor> = k"
    and "x / 2 powi (max k (- 1022) - 52) = of_int m + 1 / 2" and "even m"
    and "y = of_int m * 2 powi (max k (- 1022) - 52)"
  shows "double_round x =
           (if 2 ^ 1024 \<le> y then PosInf else if y \<le> - (2 ^ 1024) then NegInf else Fin y)"
proof -
  let ?q = "(2::real) powi (max k (- 1022) - 52)"
  have f: "\<lfloor>of_int m + (1 / 2 :: real)\<rfloor> = m" by linarith
  have r: "round_half_even (x / ?q) = m"
    unfolding assms(3) using assms(4) by (simp add: round_half_even_def f Let_def)
  have "double_round x =
          (if 2 ^ 1024 \<le> of_int (round_half_even (x / ?q)) * ?q then PosInf
           else if of_int (round_half_even (x / ?q)) * ?q \<le> - (2 ^ 1024) then NegInf
           else Fin (of_int (round_half_even (x / ?q)) * ?q))"
    using assms(1) by (simp only: double_round_def Let_def assms(2) if_False)
  then show ?thesis unfolding r assms(5) .
qed


text \<open>The sum of two doubles is rounded, and it overflows.\<close>

lemma double_add_rounds: "double_add (2 ^ 53) 1 = Fin (2 ^ 53)"
proof -
  have e: "\<lfloor>log 2 \<bar>9007199254740993 :: real\<bar>\<rfloor> = 53" by (rule floor_log2_eq) simp_all
  have m: "(9007199254740993 :: real) / 2 powi (max 53 (- 1022) - 52)
             = of_int 4503599627370496 + 1 / 2"
    by (simp add: power_int_def)
  have y: "(9007199254740992 :: real) = of_int 4503599627370496 * 2 powi (max 53 (- 1022) - 52)"
    by (simp add: power_int_def)
  show ?thesis
    using double_round_tie [OF _ e m _ y] by (simp add: double_add_def)
qed

lemma double_add_overflows: "double_add (2 ^ 1023) (2 ^ 1023) = PosInf"
proof -
  have x: "(2::real) ^ 1023 + 2 ^ 1023 = 2 ^ 1024" by simp
  have e: "\<lfloor>log 2 \<bar>(2::real) ^ 1024\<bar>\<rfloor> = 1024" by (rule floor_log2_eq) simp_all
  have m: "(2::real) ^ 1024 / 2 powi (max 1024 (- 1022) - 52) = of_int (2 ^ 52)"
    by (simp add: power_int_def)
  have "double_round (2 ^ 1024) = PosInf"
    using double_round_multiple [OF _ e m] by simp
  then show ?thesis
    unfolding double_add_def x .
qed

text \<open>
  A relative seek whose sum overflows on an element without a known duration: the target
  \<open>Infinity\<close> is not clamped, the assignment to \<open>currentTime\<close> throws, and the listener
  is left without an answer.
\<close>

lemma seek_relative_overflow:
  assumes "tm_type message = ''MEDIA_COMMAND''"
    and "Map_get (trackedElements s) (tm_elementId message) = Some r"
    and "tm_command message = ''seek-relative''" and "tm_delta message = Number (Fin d)"
    and "double_add (currentTime (heap s r)) d = PosInf"
    and "\<nexists>D. duration (heap s r) = Fin D \<and> 0 < D"
  shows "onMessage s message = (s, Thrown TypeError)"
  using onMessage_seek [of message s r 0 PosInf d] assms seekTo_overflow [OF assms(6)]
  by simp

lemma seek_relative_overflow_example:
  "onMessage ex_far (ex_command ''a'' ''seek-relative'' (Number (Fin (2 ^ 1023))) Undefined)
     = (ex_far, Thrown TypeError)"
proof -
  let ?c = "ex_command ''a'' ''seek-relative'' (Number (Fin (2 ^ 1023))) Undefined"
  have ty: "tm_type ?c = ''MEDIA_COMMAND''" and co: "tm_command ?c = ''seek-relative''"
    and de: "tm_delta ?c = Number (Fin (2 ^ 1023))"
    by (simp_all add: ex_command_def)
  have tr: "Map_get (trackedElements ex_far) (tm_elementId ?c) = Some 0"
    by (simp add: agent_eval)
  have ct: "currentTime (heap ex_far 0) = 2 ^ 1023" by (simp add: agent_eval)
  have ov: "double_add (currentTime (heap ex_far 0)) (2 ^ 1023) = PosInf"
    unfolding ct by (rule double_add_overflows)
  have du: "\<nexists>D. duration (heap ex_far 0) = Fin D \<and> 0 < D" by (simp add: agent_eval)
  show ?thesis by (rule seek_relative_overflow [OF ty tr co de ov du])
qed



subsection \<open>Preemption\<close>

lemma serializeElement_present:
  "castToTvMediaId (heap s r) = Some i \<Longrightarrow> i \<noteq> [] \<Longrightarrow>
     serializeElement s r = (payload_of i (heap s r), s)"
  by (cases "duration (heap s r)")
     (simp_all add: serializeElement_def ensure_idem payload_of_def Let_def)

lemma flushUpdate_present:
  "castToTvMediaId (heap s r) = Some i \<Longrightarrow> i \<noteq> [] \<Longrightarrow>
     flushUpdate s r =
       (if activeMediaId s = Some i then safeSendMessage s (MEDIA_UPDATE (payload_of i (heap s r)))
        else s)"
  by (auto simp: flushUpdate_def ensure_idem serializeElement_present)

lemma scheduleUpdate_immediate_present:
  "castToTvMediaId (heap s r) = Some i \<Longrightarrow> i \<noteq> [] \<Longrightarrow>
     scheduleUpdate s r True =
       (if activeMediaId s = Some i
        then safeSendMessage (cancelPending s i) (MEDIA_UPDATE (payload_of i (heap s r)))
        else cancelPending s i)"
  by (simp add: scheduleUpdate_def ensure_idem flushUpdate_present [where i = i]
      cancelPending_fields)








subsection \<open>Coalescing of time updates\<close>

lemma listener_timeupdate_fresh:
  assumes "castToTvMediaId (heap s r) = Some i" "i \<noteq> []" "\<not> Map_has (pendingUpdates s) i"
  shows "listener s r ''timeupdate'' =
           s\<lparr>pendingUpdates := Map_set (Map_set (pendingUpdates s) i (rafNext s)) i (rafNext s),
             rafCallbacks := rafCallbacks s @ [(rafNext s, i, r)],
             rafNext := Suc (rafNext s)\<rparr>"
  using assms
  by (simp add: listener_def scheduleUpdate_def ensure_idem requestAnimationFrame_def Let_def)

lemma listener_timeupdate_pending:
  assumes "castToTvMediaId (heap s r) = Some i" "i \<noteq> []" "Map_has (pendingUpdates s) i"
  shows "listener s r ''timeupdate'' = s"
  using assms by (simp add: listener_def scheduleUpdate_def ensure_idem)

lemma dispatch_single:
  "count_list (listening s) r = 1 \<Longrightarrow> eventType \<in> set MEDIA_EVENTS \<Longrightarrow>
     step s (MediaEvent r eventType) = listener s r eventType"
  by (simp add: dispatchEvent_def)

lemma timeupdate_is_media_event: "''timeupdate'' \<in> set MEDIA_EVENTS"
  by (simp add: MEDIA_EVENTS_def)

lemma run_append: "run s (es @ es') = run (run s es) es'"
  by (induction es arbitrary: s) simp_all

lemma run_replicate_idem:
  "step (step s e) e = step s e \<Longrightarrow> run s (replicate (Suc n) e) = step s e"
proof (induction n)
  case 0
  show ?case by simp
next
  case (Suc n)
  have "run s (replicate (Suc (Suc n)) e) = run (step s e) (replicate (Suc n) e)" by simp
  also have "\<dots> = run (step (step s e) e) (replicate n e)" by simp
  also have "\<dots> = run (step s e) (replicate n e)" using Suc.prems by simp
  also have "\<dots> = run s (replicate (Suc n) e)" by simp
  finally show ?case using Suc by simp
qed

text \<open>
  Claim C9, as the code has it.  Take a tracked element with one listener, right after a
  frame boundary (nothing pending, no callback queued).  Any number \<open>n + 1\<close> of
  \<open>timeupdate\<close> events before the next frame leaves the state the first one produced: one
  pending flush, no message.  At the frame the flush fires and sends exactly one update
  if the element is the active one, and nothing if it is not.
\<close>

theorem timeupdate_coalesced:
  assumes "castToTvMediaId (heap s r) = Some i" and "i \<noteq> []"
    and "count_list (listening s) r = 1"
    and "pendingUpdates s = []" and "rafCallbacks s = []"
  shows "run s (replicate (Suc n) (MediaEvent r ''timeupdate'')) = step s (MediaEvent r ''timeupdate'')
       \<and> sent (step s (MediaEvent r ''timeupdate'')) = sent s
       \<and> pendingUpdates (step s (MediaEvent r ''timeupdate'')) = [(i, rafNext s)]
       \<and> sent (run s (replicate (Suc n) (MediaEvent r ''timeupdate'') @ [AnimationFrame]))
           = sent s @ (if activeMediaId s = Some i then [MEDIA_UPDATE (payload_of i (heap s r))] else [])
       \<and> pendingUpdates (run s (replicate (Suc n) (MediaEvent r ''timeupdate'') @ [AnimationFrame])) = []"
proof -
  let ?e = "MediaEvent r ''timeupdate''"
  let ?s1 = "s\<lparr>pendingUpdates := [(i, rafNext s)], rafCallbacks := [(rafNext s, i, r)],
               rafNext := Suc (rafNext s)\<rparr>"
  have nh: "\<not> Map_has (pendingUpdates s) i" using assms(4) by (simp add: Map_has_def)
  have first: "step s ?e = ?s1"
    using dispatch_single [OF assms(3) timeupdate_is_media_event]
      listener_timeupdate_fresh [OF assms(1,2) nh] assms(4,5) by simp
  have id1: "castToTvMediaId (heap ?s1 r) = Some i" using assms(1) by simp
  have l1: "count_list (listening ?s1) r = 1" using assms(3) by simp
  have h1: "Map_has (pendingUpdates ?s1) i" by (simp add: Map_has_def)
  have again: "step ?s1 ?e = ?s1"
    using dispatch_single [OF l1 timeupdate_is_media_event]
      listener_timeupdate_pending [OF id1 assms(2) h1] by simp
  have twice: "step (step s ?e) ?e = step s ?e"
    unfolding first by (rule again)
  have rep: "run s (replicate (Suc n) ?e) = step s ?e"
    using twice by (rule run_replicate_idem)
  have frame: "animationFrame ?s1 =
      (if activeMediaId s = Some i
       then safeSendMessage (?s1\<lparr>rafCallbacks := [], pendingUpdates := []\<rparr>)
              (MEDIA_UPDATE (payload_of i (heap s r)))
       else ?s1\<lparr>rafCallbacks := [], pendingUpdates := []\<rparr>)"
    using assms(1,2)
    by (simp add: animationFrame_def rafCallback_def Map_delete_def flushUpdate_present [where i = i])
  have full: "run s (replicate (Suc n) ?e @ [AnimationFrame]) = animationFrame ?s1"
    unfolding run_append rep first by simp
  have s1_sent: "sent ?s1 = sent s" and s1_pending: "pendingUpdates ?s1 = [(i, rafNext s)]"
    by simp_all
  have after_sent: "sent (animationFrame ?s1)
      = sent s @ (if activeMediaId s = Some i then [MEDIA_UPDATE (payload_of i (heap s r))] else [])"
    and after_pending: "pendingUpdates (animationFrame ?s1) = []"
    by (simp_all add: frame safeSendMessage_def)
  show ?thesis
    unfolding full rep first using s1_sent s1_pending after_sent after_pending by blast
qed

theorem timeupdate_coalesced_witness:
  "castToTvMediaId (heap ex_page 0) = Some ''a'' \<and> count_list (listening ex_page) 0 = 1
   \<and> pendingUpdates ex_page = [] \<and> rafCallbacks ex_page = []
   \<and> activeMediaId ex_page = Some ''a''
   \<and> sent (run ex_page (replicate (Suc 2) (MediaEvent 0 ''timeupdate''))) = sent ex_page
   \<and> sent (run ex_page (replicate (Suc 2) (MediaEvent 0 ''timeupdate'') @ [AnimationFrame]))
       = sent ex_page @ [MEDIA_UPDATE (payload_of ''a'' (heap ex_page 0))]"
proof -
  have i: "castToTvMediaId (heap ex_page 0) = Some ''a''" by (simp add: agent_eval)
  have l: "count_list (listening ex_page) 0 = 1" by (simp add: agent_eval)
  have p: "pendingUpdates ex_page = []" by (simp add: agent_eval)
  have q: "rafCallbacks ex_page = []" by (simp add: agent_eval)
  have a: "activeMediaId ex_page = Some ''a''" by (simp add: agent_eval)
  from timeupdate_coalesced [OF i _ l p q, of 2] i l p q a show ?thesis by simp
qed

text \<open>
  Claim C9 as stated fails for an element that is tracked but not active: three
  \<open>timeupdate\<close> events on the second player of the example page followed by a frame send
  nothing at all.
\<close>

theorem timeupdate_inactive_counterexample:
  "Map_get (trackedElements ex_page) ''b'' = Some 1 \<and> count_list (listening ex_page) 1 = 1
   \<and> pendingUpdates ex_page = [] \<and> rafCallbacks ex_page = []
   \<and> sent (run ex_page [MediaEvent 1 ''timeupdate'', MediaEvent 1 ''timeupdate'',
                         MediaEvent 1 ''timeupdate'', AnimationFrame]) = sent ex_page"
  by (simp add: agent_eval)


subsection \<open>Command acknowledgements\<close>

lemma scheduleUpdate_mediaCalls: "mediaCalls (scheduleUpdate s r b) = mediaCalls s"
proof -
  obtain i s1 where e: "ensureElementId s r = (i, s1)" by (cases "ensureElementId s r")
  have f: "\<And>s r. mediaCalls (flushUpdate s r) = mediaCalls s"
  proof -
    fix s r
    obtain i s1 where e: "ensureElementId s r = (i, s1)" by (cases "ensureElementId s r")
    obtain p s2 where p: "serializeElement s1 r = (p, s2)" by (cases "serializeElement s1 r")
    obtain j where j: "ensureElementId s1 r = (j, s2)"
      using p by (auto simp: serializeElement_def Let_def split: prod.splits)
    show "mediaCalls (flushUpdate s r) = mediaCalls s"
      by (simp add: flushUpdate_def e p safeSendMessage_def ensure_fields [OF e] ensure_fields [OF j])
  qed
  have c: "\<And>s e. mediaCalls (cancelPending s e) = mediaCalls s"
    subgoal for s e
      by (cases "Map_get (pendingUpdates s) e") (simp_all add: cancelPending_def Let_def)
    done
  show ?thesis
    by (simp add: scheduleUpdate_def e f c ensure_fields [OF e] requestAnimationFrame_def Let_def)
qed

lemma onMessage_unknown:
  assumes "tm_type message = ''MEDIA_COMMAND''"
    and "Map_get (trackedElements s) (tm_elementId message) = None
         \<or> commandHandlers (tm_command message) = None"
  shows "onMessage s message = (s, Responded (Ack False (Some ''unknown-element'')))"
  using assms by (auto simp: onMessage_def split: option.splits)

lemma with_default_defined: "v \<noteq> Undefined \<Longrightarrow> with_default v d = v"
  by (cases v) simp_all

text \<open>
  Claim C1, as the code has it.  A \<open>toggle-play\<close> command on a tracked element that is
  paused or ended calls \<open>play()\<close> once and leaves the answer to the promise.  When that
  promise is rejected, the handler's own \<open>catch\<close> swallows the rejection, so the
  acknowledgement is \<open>{ok: true}\<close>; no further call to \<open>play()\<close> or \<open>pause()\<close> is made.
\<close>

theorem toggle_play_rejection_acknowledged:
  assumes "tm_type message = ''MEDIA_COMMAND''" and "tm_command message = ''toggle-play''"
    and "Map_get (trackedElements s) (tm_elementId message) = Some r"
    and "paused (heap s r) \<or> ended (heap s r)"
  shows "onMessage s message = (s\<lparr>mediaCalls := mediaCalls s @ [(r, CallPlay)]\<rparr>, PlayPending r)
       \<and> snd (playSettled s' r (Rejected reason)) = Ack True None
       \<and> mediaCalls (fst (playSettled s' r (Rejected reason))) = mediaCalls s'"
  using assms
  by (auto simp: onMessage_def commandHandlers_def playSettled_def finalize_def
      scheduleUpdate_mediaCalls)

theorem toggle_play_rejection_acknowledged_witness:
  "Map_get (trackedElements ex_page) ''a'' = Some 0 \<and> paused (heap ex_page 0)
   \<and> snd (onMessage ex_page (ex_command ''a'' ''toggle-play'' Undefined Undefined)) = PlayPending 0
   \<and> mediaCalls (fst (onMessage ex_page (ex_command ''a'' ''toggle-play'' Undefined Undefined)))
       = [(0, CallPlay)]
   \<and> snd (playSettled ex_page 0 (Rejected ''NotAllowedError'')) = Ack True None"
proof -
  let ?c = "ex_command ''a'' ''toggle-play'' Undefined Undefined"
  have ty: "tm_type ?c = ''MEDIA_COMMAND''" and co: "tm_command ?c = ''toggle-play''"
    by (simp_all add: ex_command_def)
  have t: "Map_get (trackedElements ex_page) ''a'' = Some 0" by (simp add: agent_eval)
  then have tr: "Map_get (trackedElements ex_page) (tm_elementId ?c) = Some 0"
    by (simp add: ex_command_def)
  have p: "paused (heap ex_page 0)" by (simp add: agent_eval)
  then have pe: "paused (heap ex_page 0) \<or> ended (heap ex_page 0)" by simp
  have m: "mediaCalls ex_page = []" by (simp add: agent_eval)
  note th = toggle_play_rejection_acknowledged [OF ty co tr pe, of ex_page "''NotAllowedError''"]
  from th have e: "onMessage ex_page ?c
      = (ex_page\<lparr>mediaCalls := mediaCalls ex_page @ [(0, CallPlay)]\<rparr>, PlayPending 0)"
    by (rule conjunct1)
  from th have a: "snd (playSettled ex_page 0 (Rejected ''NotAllowedError'')) = Ack True None"
    by blast
  from e m have r: "snd (onMessage ex_page ?c) = PlayPending 0"
    and c: "mediaCalls (fst (onMessage ex_page ?c)) = [(0, CallPlay)]"
    by simp_all
  from t p r c a show ?thesis by blast
qed

text \<open>
  Claim C1 as stated fails: on the example page, the rejection of the play attempt started
  by \<open>toggle-play\<close> is acknowledged with \<open>ok = true\<close>, not \<open>ok = false\<close>.
\<close>

theorem toggle_play_rejection_counterexample:
  "snd (onMessage ex_page (ex_command ''a'' ''toggle-play'' Undefined Undefined)) = PlayPending 0
   \<and> ok (snd (playSettled (fst (onMessage ex_page (ex_command ''a'' ''toggle-play'' Undefined Undefined)))
               0 (Rejected ''NotAllowedError''))) \<noteq> False"
  by (simp add: agent_eval)

text \<open>
  Claim C10.  A \<open>seek-relative\<close> command whose \<open>delta\<close> is present and is not a finite
  number (NaN, an infinity, or a value that is not a number at all), and a \<open>seek-absolute\<close>
  command whose \<open>time\<close> is such a value, leave \<open>currentTime\<close> of the tracked target as it
  was; the acknowledgement is \<open>{ok: true}\<close> and the immediate update
  still runs (the state is that of \<open>scheduleUpdate\<close> with \<open>immediate = true\<close>, which sends
  the element's state when the element is the active one).
\<close>

theorem non_finite_seek_ignored:
  assumes "tm_type message = ''MEDIA_COMMAND''"
    and "Map_get (trackedElements s) (tm_elementId message) = Some r"
    and "tm_command message = ''seek-relative'' \<and> tm_delta message \<noteq> Undefined
           \<and> \<not> Number_isFinite (tm_delta message)
         \<or> tm_command message = ''seek-absolute'' \<and> tm_time message \<noteq> Undefined
           \<and> \<not> Number_isFinite (tm_time message)"
  shows "onMessage s message = (scheduleUpdate s r True, Responded (Ack True None))
       \<and> currentTime (heap (fst (onMessage s message)) r) = currentTime (heap s r)
       \<and> (\<forall>i. castToTvMediaId (heap s r) = Some i \<and> i \<noteq> [] \<and> activeMediaId s = Some i \<longrightarrow>
             sent (fst (onMessage s message)) = sent s @ [MEDIA_UPDATE (payload_of i (heap s r))])"
proof -
  have eq: "onMessage s message = (scheduleUpdate s r True, Responded (Ack True None))"
    using assms
    by (auto simp: onMessage_def commandHandlers_def SEEK_RELATIVE_def SEEK_ABSOLUTE_def
        finalize_def set_element_def with_default_defined)
  have flush: "sent (scheduleUpdate s r True) = sent s @ [MEDIA_UPDATE (payload_of i (heap s r))]"
    if "castToTvMediaId (heap s r) = Some i \<and> i \<noteq> [] \<and> activeMediaId s = Some i" for i
    using that scheduleUpdate_immediate_present [of s r i]
    by (simp add: safeSendMessage_def cancelPending_fields)
  show ?thesis
    using flush by (simp add: eq scheduleUpdate_immediate_currentTime)
qed

theorem non_finite_seek_ignored_witness:
  "Map_get (trackedElements ex_page) ''a'' = Some 0
   \<and> snd (onMessage ex_page (ex_command ''a'' ''seek-relative'' (Number NaN) Undefined))
       = Responded (Ack True None)
   \<and> currentTime (heap (fst (onMessage ex_page (ex_command ''a'' ''seek-relative'' (Number NaN) Undefined))) 0)
       = 10
   \<and> sent (fst (onMessage ex_page (ex_command ''a'' ''seek-relative'' (Number NaN) Undefined)))
       = sent ex_page @ [MEDIA_UPDATE (payload_of ''a'' (heap ex_page 0))]"
proof -
  let ?c = "ex_command ''a'' ''seek-relative'' (Number NaN) Undefined"
  have ty: "tm_type ?c = ''MEDIA_COMMAND''" by (simp add: ex_command_def)
  have k: "tm_command ?c = ''seek-relative'' \<and> tm_delta ?c \<noteq> Undefined
           \<and> \<not> Number_isFinite (tm_delta ?c)
         \<or> tm_command ?c = ''seek-absolute'' \<and> tm_time ?c \<noteq> Undefined
           \<and> \<not> Number_isFinite (tm_time ?c)"
    by (simp add: ex_command_def)
  have t: "Map_get (trackedElements ex_page) ''a'' = Some 0" by (simp add: agent_eval)
  then have tr: "Map_get (trackedElements ex_page) (tm_elementId ?c) = Some 0"
    by (simp add: ex_command_def)
  have i: "castToTvMediaId (heap ex_page 0) = Some ''a'' \<and> ''a'' \<noteq> [] \<and> activeMediaId ex_page = Some ''a''"
    by (simp add: agent_eval)
  have c: "currentTime (heap ex_page 0) = 10" by (simp add: agent_eval)
  note th = non_finite_seek_ignored [OF ty tr k]
  from th have e: "onMessage ex_page ?c = (scheduleUpdate ex_page 0 True, Responded (Ack True None))"
    by (rule conjunct1)
  then have r: "snd (onMessage ex_page ?c) = Responded (Ack True None)" by simp
  from th have "currentTime (heap (fst (onMessage ex_page ?c)) 0) = currentTime (heap ex_page 0)"
    by blast
  with c have ct: "currentTime (heap (fst (onMessage ex_page ?c)) 0) = 10" by (simp only:)
  from th i have s: "sent (fst (onMessage ex_page ?c))
      = sent ex_page @ [MEDIA_UPDATE (payload_of ''a'' (heap ex_page 0))]"
    by blast
  from t r ct s show ?thesis by blast
qed

text \<open>
  Claim C8 on the code.  A command for an element id that is not tracked, or with a name
  that \<open>commandHandlers[command]\<close> does not find, is answered with
  \<open>{ok: false, error: 'unknown-element'}\<close> and changes nothing (\<open>onMessage_unknown\<close>).  But
  the lookup also finds the names inherited from \<open>Object.prototype\<close>: the command
  \<open>toString\<close> addressed to a tracked element has no handler among the three commands, yet
  it is acknowledged with \<open>{ok: true}\<close> and followed by an immediate update.
\<close>

theorem inherited_command_acknowledged:
  "Map_get (trackedElements ex_page) ''a'' = Some 0
   \<and> onMessage ex_page (ex_command ''a'' ''toString'' Undefined Undefined)
       = (scheduleUpdate ex_page 0 True, Responded (Ack True None))
   \<and> sent (scheduleUpdate ex_page 0 True)
       = sent ex_page @ [MEDIA_UPDATE (payload_of ''a'' (heap ex_page 0))]"
proof -
  have t: "Map_get (trackedElements ex_page) ''a'' = Some 0" by (simp add: agent_eval)
  have i: "castToTvMediaId (heap ex_page 0) = Some ''a''" by (simp add: agent_eval)
  have a: "activeMediaId ex_page = Some ''a''" by (simp add: agent_eval)
  have m: "onMessage ex_page (ex_command ''a'' ''toString'' Undefined Undefined)
             = (scheduleUpdate ex_page 0 True, Responded (Ack True None))"
    using t
    by (simp add: onMessage_def ex_command_def commandHandlers_def Object_prototype_names_def
        inherited_throws_def finalize_def)
  have s: "sent (scheduleUpdate ex_page 0 True)
             = sent ex_page @ [MEDIA_UPDATE (payload_of ''a'' (heap ex_page 0))]"
    using scheduleUpdate_immediate_present [OF i] a
    by (simp add: safeSendMessage_def cancelPending_fields)
  from t m s show ?thesis by simp
qed

end
